theory Spec2Isabelle
  imports Main
begin

section \<open>Values, constants and the world the script acts on\<close>

text \<open>
  The file \<^verbatim>\<open>app.py\<close> is a Streamlit script: every statement is a call into the
  logging module, the operating system, Streamlit, or the package
  \<^verbatim>\<open>data_measurements\<close>. The model threads an explicit world through these calls.
  The world holds what persists between statements and between reruns of the script
  (the directories that exist, the module logger, the store of \<^verbatim>\<open>st.cache\<close>) and
  the trace of calls made so far, in program order.
\<close>

datatype pyval =
    PyNone
  | PyBool bool
  | PyInt int
  | PyStr string
  | PyList "pyval list"
  | PyDict "(string \<times> pyval) list"

type_synonym pydict = "(string \<times> pyval) list"

text \<open>
  Lines 67 to 73 copy constants of \<^verbatim>\<open>dataset_utils\<close>, a module that is not part of
  the file. Their values are parameters of the model.
\<close>

record constants =
  CACHE_DIR :: string
  OUR_TEXT_FIELD :: string
  OUR_LABEL_FIELD :: string
  TOKENIZED_FIELD :: string
  EMBEDDING_FIELD :: string
  LENGTH_FIELD :: string

definition MIN_VOCAB_COUNT :: nat where
  "MIN_VOCAB_COUNT = 10"

definition SHOW_TOP_N_WORDS :: nat where
  "SHOW_TOP_N_WORDS = 10"

subsection \<open>The logging module\<close>

datatype level = NOTSET | DEBUG | INFO | WARNING | ERROR | CRITICAL

datatype target = File string | Stream

record handler =
  target :: target
  hlevel :: level
  formatter :: "string option"

record logger =
  level :: level
  propagate :: bool
  handlers :: "handler list"

definition FileHandler :: "string \<Rightarrow> handler" where
  "FileHandler path = \<lparr>target = File path, hlevel = NOTSET, formatter = None\<rparr>"

definition StreamHandler :: handler where
  "StreamHandler = \<lparr>target = Stream, hlevel = NOTSET, formatter = None\<rparr>"

definition setLevel_handler :: "level \<Rightarrow> handler \<Rightarrow> handler" where
  "setLevel_handler l h = h\<lparr>hlevel := l\<rparr>"

definition setFormatter :: "string \<Rightarrow> handler \<Rightarrow> handler" where
  "setFormatter f h = h\<lparr>formatter := Some f\<rparr>"

text \<open>A logger that \<^verbatim>\<open>logging.getLogger\<close> has just created.\<close>

definition new_logger :: logger where
  "new_logger = \<lparr>level = NOTSET, propagate = True, handlers = []\<rparr>"

subsection \<open>Objects of the statistics class and the calls in the trace\<close>

datatype step =
    Dataset
  | Labels
  | Text_lengths
  | Vocab
  | General_stats
  | Embeddings
  | Npmi_terms
  | Zipf

text \<open>
  A \<^verbatim>\<open>DatasetStatisticsCacheClass\<close> object. The class is not part of the file, so
  an object is known by its identity, the arguments of its constructor, and the
  \<^verbatim>\<open>load_or_prepare_*\<close> methods invoked on it so far, each with its
  \<^verbatim>\<open>use_cache\<close> flag.
\<close>

record dstats =
  oid :: nat
  cache_dir :: string
  kwargs :: pydict
  prepared :: "(step \<times> bool) list"

datatype container = Page | Column nat

datatype widget =
    Markdown string
  | Expander_header nat pyval string
  | Expander_general_stats nat nat string
  | Expander_label_distribution nat string
  | Expander_text_lengths nat string string string
  | Expander_text_duplicates nat string
  | Npmi_widget string nat nat bool
  | Expander_zipf nat string
  | Expander_text_embeddings nat string string

datatype event =
    Log level string
  | Mkdir string
  | Construct nat string pydict
  | Prepare nat step bool
  | Print_fig_tree nat
  | Cached_call pydict bool "bool option"
  | Set_page_config
  | Get_dataset_info_dicts
  | Title string
  | Sidebar_header
  | Checkbox string
  | Sidebar_selection pyval string
  | Columns "int list"
  | NPMI_construct nat bool
  | Get_available_terms nat bool
  | Render container widget

datatype error = FileExistsError

type_synonym cache_key = "pydict \<times> bool \<times> bool option"

record world =
  dirs :: "string set"
  logs :: logger
  next_oid :: nat
  memo :: "(cache_key \<times> dstats) list"
  current :: container
  trace :: "event list"

definition emit :: "event \<Rightarrow> world \<Rightarrow> world" where
  "emit e w = w\<lparr>trace := trace w @ [e]\<rparr>"

subsection \<open>Calls into the logging module\<close>

definition setLevel :: "level \<Rightarrow> world \<Rightarrow> world" where
  "setLevel l w = w\<lparr>logs := (logs w)\<lparr>level := l\<rparr>\<rparr>"

definition set_propagate :: "bool \<Rightarrow> world \<Rightarrow> world" where
  "set_propagate b w = w\<lparr>logs := (logs w)\<lparr>propagate := b\<rparr>\<rparr>"

text \<open>\<^verbatim>\<open>Logger.addHandler\<close> appends a handler unless the list already has it.\<close>

definition addHandler :: "handler \<Rightarrow> world \<Rightarrow> world" where
  "addHandler h w =
     (if h \<in> set (handlers (logs w)) then w
      else w\<lparr>logs := (logs w)\<lparr>handlers := handlers (logs w) @ [h]\<rparr>\<rparr>)"

text \<open>
  \<^verbatim>\<open>logs.warning(msg)\<close> and \<^verbatim>\<open>logs.info(msg)\<close>: the trace records the call;
  how the logging module routes the record to the handlers is not modelled.
\<close>

definition warning :: "string \<Rightarrow> world \<Rightarrow> world" where
  "warning msg w = emit (Log WARNING msg) w"

definition info :: "string \<Rightarrow> world \<Rightarrow> world" where
  "info msg w = emit (Log INFO msg) w"

subsection \<open>Calls into the operating system\<close>

text \<open>
  The file system is the set of paths that are directories. \<^verbatim>\<open>os.mkdir\<close> raises
  \<^verbatim>\<open>FileExistsError\<close> on a path that exists; its other failures (a missing
  parent, permissions, a file that is not a directory at the path) are outside
  the model. \<^verbatim>\<open>Path.mkdir(exist_ok=True)\<close> accepts an existing directory.
\<close>

definition isdir :: "world \<Rightarrow> string \<Rightarrow> bool" where
  "isdir w p = (p \<in> dirs w)"

definition mkdir :: "string \<Rightarrow> world \<Rightarrow> error + world" where
  "mkdir p w =
     (if p \<in> dirs w then Inl FileExistsError
      else Inr (emit (Mkdir p) (w\<lparr>dirs := insert p (dirs w)\<rparr>)))"

definition Path_mkdir_exist_ok :: "string \<Rightarrow> world \<Rightarrow> world" where
  "Path_mkdir_exist_ok p w =
     (if p \<in> dirs w then w else emit (Mkdir p) (w\<lparr>dirs := insert p (dirs w)\<rparr>))"

section \<open>Lines 25 to 46: the module logger\<close>

definition logging_setup :: "world \<Rightarrow> world" where
  "logging_setup w =
     (let w1 = setLevel WARNING w;
          w2 = set_propagate False w1
      in if handlers (logs w2) = [] then
           (let w3 = Path_mkdir_exist_ok ''./log_files'' w2;
                file = FileHandler ''./log_files/app.log'';
                fileformat = ''%(asctime)s:%(message)s'';
                file = setLevel_handler INFO file;
                file = setFormatter fileformat file;
                stream = StreamHandler;
                streamformat = ''[data_measurements_tool] %(message)s'';
                stream = setLevel_handler WARNING stream;
                stream = setFormatter streamformat stream;
                w4 = addHandler file w3
            in addHandler stream w4)
         else w2)"

section \<open>Lines 85 to 125: \<^verbatim>\<open>load_or_prepare\<close>\<close>

text \<open>
  The constructor \<^verbatim>\<open>DatasetStatisticsCacheClass(CACHE_DIR, **ds_args)\<close> returns a
  new object; each \<^verbatim>\<open>load_or_prepare_*\<close> method changes the object it is invoked
  on. What the class computes is outside the file: a call is recorded in the trace
  and in the object.
\<close>

definition DatasetStatisticsCacheClass ::
  "string \<Rightarrow> pydict \<Rightarrow> world \<Rightarrow> dstats \<times> world" where
  "DatasetStatisticsCacheClass dir args w =
     (\<lparr>oid = next_oid w, cache_dir = dir, kwargs = args, prepared = []\<rparr>,
      emit (Construct (next_oid w) dir args) (w\<lparr>next_oid := Suc (next_oid w)\<rparr>))"

definition invoke :: "step \<Rightarrow> bool \<Rightarrow> dstats \<times> world \<Rightarrow> dstats \<times> world" where
  "invoke s use_cache dw =
     (case dw of (d, w) \<Rightarrow>
        (d\<lparr>prepared := prepared d @ [(s, use_cache)]\<rparr>,
         emit (Prepare (oid d) s use_cache) w))"

definition load_or_prepare_dataset :: "bool \<Rightarrow> dstats \<times> world \<Rightarrow> dstats \<times> world" where
  "load_or_prepare_dataset = invoke Dataset"

definition load_or_prepare_labels :: "bool \<Rightarrow> dstats \<times> world \<Rightarrow> dstats \<times> world" where
  "load_or_prepare_labels = invoke Labels"

definition load_or_prepare_text_lengths :: "bool \<Rightarrow> dstats \<times> world \<Rightarrow> dstats \<times> world" where
  "load_or_prepare_text_lengths = invoke Text_lengths"

definition load_or_prepare_vocab :: "bool \<Rightarrow> dstats \<times> world \<Rightarrow> dstats \<times> world" where
  "load_or_prepare_vocab = invoke Vocab"

definition load_or_prepare_general_stats :: "bool \<Rightarrow> dstats \<times> world \<Rightarrow> dstats \<times> world" where
  "load_or_prepare_general_stats = invoke General_stats"

definition load_or_prepare_embeddings :: "bool \<Rightarrow> dstats \<times> world \<Rightarrow> dstats \<times> world" where
  "load_or_prepare_embeddings = invoke Embeddings"

definition load_or_prepare_npmi_terms :: "bool \<Rightarrow> dstats \<times> world \<Rightarrow> dstats \<times> world" where
  "load_or_prepare_npmi_terms = invoke Npmi_terms"

definition load_or_prepare_zipf :: "bool \<Rightarrow> dstats \<times> world \<Rightarrow> dstats \<times> world" where
  "load_or_prepare_zipf = invoke Zipf"

text \<open>A statement that touches the world only, between two method calls.\<close>

definition on_world :: "(world \<Rightarrow> world) \<Rightarrow> dstats \<times> world \<Rightarrow> dstats \<times> world" where
  "on_world f dw = (case dw of (d, w) \<Rightarrow> (d, f w))"

definition print_fig_tree :: "dstats \<times> world \<Rightarrow> dstats \<times> world" where
  "print_fig_tree dw = (case dw of (d, w) \<Rightarrow> (d, emit (Print_fig_tree (oid d)) w))"

text \<open>
  What a call leaves behind: the value returned or the exception raised, the
  dictionary \<^verbatim>\<open>ds_args\<close> as the caller sees it afterwards (a Python dictionary is
  passed by reference), and the world.
\<close>

record outcome =
  returned :: "error + dstats"
  ds_args_after :: pydict
  world_after :: world

text \<open>A parameter with a default value: \<open>None\<close> when the caller omits it.\<close>

definition or_default :: "'a \<Rightarrow> 'a option \<Rightarrow> 'a" where
  "or_default d v = (case v of None \<Rightarrow> d | Some x \<Rightarrow> x)"

definition load_or_prepare ::
  "constants \<Rightarrow> pydict \<Rightarrow> bool \<Rightarrow> bool option \<Rightarrow> world \<Rightarrow> outcome" where
  "load_or_prepare c ds_args show_embeddings use_cache_arg w =
     (let use_cache = or_default False use_cache_arg
      in case (if \<not> isdir w (CACHE_DIR c)
               then mkdir (CACHE_DIR c) (warning ''Creating cache'' w)
               else Inr w) of
           Inl e \<Rightarrow>
             \<lparr>returned = Inl e, ds_args_after = ds_args,
              world_after = warning ''Creating cache'' w\<rparr>
         | Inr w1 \<Rightarrow>
             (let w2 = (if use_cache then warning ''Using cache'' w1 else w1);
                  s = DatasetStatisticsCacheClass (CACHE_DIR c) ds_args w2;
                  s = on_world (warning ''Loading Dataset'') s;
                  s = load_or_prepare_dataset use_cache s;
                  s = on_world (warning ''Extracting Labels'') s;
                  s = load_or_prepare_labels use_cache s;
                  s = on_world (warning ''Computing Text Lengths'') s;
                  s = load_or_prepare_text_lengths use_cache s;
                  s = on_world (warning ''Extracting Vocabulary'') s;
                  s = load_or_prepare_vocab use_cache s;
                  s = on_world (warning ''Calculating General Statistics...'') s;
                  s = load_or_prepare_general_stats use_cache s;
                  s = on_world (warning ''Completed Calculation.'') s;
                  s = on_world (warning ''Calculating Fine-Grained Statistics...'') s;
                  s = (if show_embeddings then
                         (let s = on_world (warning ''Loading Embeddings'') s;
                              s = load_or_prepare_embeddings use_cache s
                          in print_fig_tree s)
                       else s);
                  s = on_world (warning ''Loading Terms for nPMI'') s;
                  s = load_or_prepare_npmi_terms use_cache s;
                  s = on_world (warning ''Loading Zipf'') s;
                  s = load_or_prepare_zipf use_cache s
              in case s of (dstats, w3) \<Rightarrow>
                   \<lparr>returned = Inr dstats, ds_args_after = ds_args,
                    world_after = w3\<rparr>))"

section \<open>Lines 79 to 84: the decorator \<^verbatim>\<open>st.cache\<close>\<close>

text \<open>
  The name \<^verbatim>\<open>load_or_prepare\<close> that \<^verbatim>\<open>main\<close> calls is the function above wrapped
  by \<^verbatim>\<open>st.cache\<close>. The wrapper keeps a store from the arguments of a call to the
  value the function returned for them. A call whose arguments are in the store
  returns the stored object and does not execute the function; any other call
  executes it and stores what it returns (an exception stores nothing). The store
  outlives a run of the script. With \<^verbatim>\<open>allow_output_mutation=True\<close> the stored
  object is handed out as it is.
\<close>

definition st_cache ::
  "(pydict \<Rightarrow> bool \<Rightarrow> bool option \<Rightarrow> world \<Rightarrow> outcome) \<Rightarrow>
   pydict \<Rightarrow> bool \<Rightarrow> bool option \<Rightarrow> world \<Rightarrow> outcome" where
  "st_cache f ds_args show_embeddings use_cache_arg w =
     (let key = (ds_args, show_embeddings, use_cache_arg);
          w1 = emit (Cached_call ds_args show_embeddings use_cache_arg) w
      in case map_of (memo w1) key of
           Some d \<Rightarrow> \<lparr>returned = Inr d, ds_args_after = ds_args, world_after = w1\<rparr>
         | None \<Rightarrow>
             (let out = f ds_args show_embeddings use_cache_arg w1
              in case returned out of
                   Inl e \<Rightarrow> out
                 | Inr d \<Rightarrow>
                     out\<lparr>world_after :=
                       (world_after out)\<lparr>memo := (key, d) # memo (world_after out)\<rparr>\<rparr>))"

section \<open>Lines 128 to 180: \<^verbatim>\<open>show_column\<close>\<close>

text \<open>
  The title reads three attributes of the statistics object. The class that sets
  them is not part of the file; the readers are parameters.
\<close>

record statistics_class =
  dset_name :: "dstats \<Rightarrow> string"
  dset_config :: "dstats \<Rightarrow> string"
  text_field :: "dstats \<Rightarrow> string list"

fun join :: "string \<Rightarrow> string list \<Rightarrow> string" where
  "join sep [] = []"
| "join sep [x] = x"
| "join sep (x # y # ys) = x @ sep @ join sep (y # ys)"

definition title_str :: "statistics_class \<Rightarrow> string \<Rightarrow> dstats \<Rightarrow> string" where
  "title_str cls column_id d =
     ''### Showing'' @ column_id @ '': '' @ dset_name cls d @ '' - '' @
     dset_config cls d @ '' - '' @ join ''-'' (text_field cls d)"

text \<open>A widget is drawn in the container that is current when the call is made.\<close>

definition render :: "widget \<Rightarrow> world \<Rightarrow> world" where
  "render g w = emit (Render (current w) g) w"

definition show_column ::
  "constants \<Rightarrow> statistics_class \<Rightarrow> dstats \<Rightarrow> pyval \<Rightarrow> bool \<Rightarrow> string \<Rightarrow>
   bool option \<Rightarrow> world \<Rightarrow> world" where
  "show_column c cls d ds_name_to_dict show_embeddings column_id use_cache_arg w =
     (let use_cache = or_default True use_cache_arg;
          w = render (Markdown (title_str cls column_id d)) w;
          w = info ''showing header'' w;
          w = render (Expander_header (oid d) ds_name_to_dict column_id) w;
          w = info ''showing general stats'' w;
          w = render (Expander_general_stats (oid d) SHOW_TOP_N_WORDS column_id) w;
          w = render (Expander_label_distribution (oid d) column_id) w;
          w = render (Expander_text_lengths (oid d) (OUR_TEXT_FIELD c) (LENGTH_FIELD c)
                        column_id) w;
          w = render (Expander_text_duplicates (oid d) column_id) w;
          w = info ''showing npmi widget'' w;
          w = emit (NPMI_construct (oid d) use_cache) w;
          w = emit (Get_available_terms (oid d) use_cache) w;
          w = render (Npmi_widget column_id (oid d) MIN_VOCAB_COUNT use_cache) w;
          w = info ''showing zipf'' w;
          w = render (Expander_zipf (oid d) column_id) w
      in if show_embeddings
         then render (Expander_text_embeddings (oid d) (OUR_TEXT_FIELD c) column_id) w
         else w)"

section \<open>Lines 183 to 217: \<^verbatim>\<open>main\<close>\<close>

text \<open>
  What the user has chosen in the sidebar when the script runs, and the dataset
  table that \<^verbatim>\<open>dataset_utils.get_dataset_info_dicts\<close> returns.
\<close>

record ui =
  info_dicts :: pyval
  compare_box :: bool
  embeddings_box :: bool
  selection :: "pyval \<Rightarrow> string \<Rightarrow> pydict"

text \<open>\<^verbatim>\<open>with col:\<close> makes the column current for the statements under it.\<close>

definition within :: "container \<Rightarrow> (world \<Rightarrow> world) \<Rightarrow> world \<Rightarrow> world" where
  "within col body w = (body (w\<lparr>current := col\<rparr>))\<lparr>current := current w\<rparr>"

definition main ::
  "constants \<Rightarrow> statistics_class \<Rightarrow> ui \<Rightarrow> world \<Rightarrow> (error + unit) \<times> world" where
  "main c cls u w =
     (let w = emit Get_dataset_info_dicts w;
          ds_name_to_dict = info_dicts u;
          w = emit (Title ''Data Measurements Tool'') w;
          w = emit Sidebar_header w;
          w = emit (Checkbox ''Comparison mode'') w;
          compare_mode = compare_box u;
          use_cache = True;
          w = emit (Checkbox ''Show embeddings'') w;
          show_embeddings = embeddings_box u
      in if compare_mode then
           (let w = warning ''Using Comparison Mode'' w;
                w = emit (Sidebar_selection ds_name_to_dict '' A'') w;
                dataset_args_left = selection u ds_name_to_dict '' A'';
                w = emit (Sidebar_selection ds_name_to_dict '' B'') w;
                dataset_args_right = selection u ds_name_to_dict '' B'';
                w = emit (Columns [10, 1, 10]) w;
                left_col = Column 0;
                right_col = Column 2;
                out = st_cache (load_or_prepare c) dataset_args_left show_embeddings
                        (Some use_cache) w
            in case returned out of
                 Inl e \<Rightarrow> (Inl e, world_after out)
               | Inr dstats_left \<Rightarrow>
                   (let w = within left_col
                              (show_column c cls dstats_left ds_name_to_dict
                                 show_embeddings '' A'' None)
                              (world_after out);
                        out = st_cache (load_or_prepare c) dataset_args_right
                                show_embeddings (Some use_cache) w
                    in case returned out of
                         Inl e \<Rightarrow> (Inl e, world_after out)
                       | Inr dstats_right \<Rightarrow>
                           (Inr (),
                            within right_col
                              (show_column c cls dstats_right ds_name_to_dict
                                 show_embeddings '' B'' None)
                              (world_after out))))
         else
           (let w = warning ''Using Single Dataset Mode'' w;
                w = emit (Sidebar_selection ds_name_to_dict []) w;
                dataset_args = selection u ds_name_to_dict [];
                out = st_cache (load_or_prepare c) dataset_args show_embeddings
                        (Some use_cache) w
            in case returned out of
                 Inl e \<Rightarrow> (Inl e, world_after out)
               | Inr d \<Rightarrow>
                   (Inr (),
                    show_column c cls d ds_name_to_dict show_embeddings [] None
                      (world_after out))))"

text \<open>
  One run of the script: the module level statements, then \<^verbatim>\<open>main\<close>. Streamlit
  runs the script again on every interaction, on the world the last run left.
\<close>

definition script ::
  "constants \<Rightarrow> statistics_class \<Rightarrow> ui \<Rightarrow> world \<Rightarrow> (error + unit) \<times> world" where
  "script c cls u w = main c cls u (emit Set_page_config (logging_setup w))"

section \<open>Reading a trace\<close>

text \<open>The calls a step adds to the trace: those of the later world beyond the earlier.\<close>

definition new_events :: "world \<Rightarrow> world \<Rightarrow> event list" where
  "new_events w w' = drop (length (trace w)) (trace w')"

fun prepare_of :: "event \<Rightarrow> (nat \<times> step \<times> bool) option" where
  "prepare_of (Prepare n s b) = Some (n, s, b)"
| "prepare_of _ = None"

fun construct_of :: "event \<Rightarrow> (nat \<times> string \<times> pydict) option" where
  "construct_of (Construct n dir args) = Some (n, dir, args)"
| "construct_of _ = None"


text \<open>The method calls on statistics objects, in order: object, step, flag.\<close>

definition prepares :: "event list \<Rightarrow> (nat \<times> step \<times> bool) list" where
  "prepares evs = List.map_filter prepare_of evs"

text \<open>The constructor calls, in order: new object, cache directory, keyword arguments.\<close>

definition constructs :: "event list \<Rightarrow> (nat \<times> string \<times> pydict) list" where
  "constructs evs = List.map_filter construct_of evs"


text \<open>The steps a list of calls triggers, whatever the object and the flag.\<close>

definition triggered :: "event list \<Rightarrow> step set" where
  "triggered evs = set (map (\<lambda>(n, s, b). s) (prepares evs))"

fun cached_call_of :: "event \<Rightarrow> (pydict \<times> bool \<times> bool option) option" where
  "cached_call_of (Cached_call args se uc) = Some (args, se, uc)"
| "cached_call_of _ = None"

fun render_of :: "event \<Rightarrow> (container \<times> widget) option" where
  "render_of (Render col g) = Some (col, g)"
| "render_of _ = None"

text \<open>The calls of \<^verbatim>\<open>main\<close> to the decorated \<^verbatim>\<open>load_or_prepare\<close>, with their arguments.\<close>

definition cached_calls :: "event list \<Rightarrow> (pydict \<times> bool \<times> bool option) list" where
  "cached_calls evs = List.map_filter cached_call_of evs"

text \<open>The widgets drawn, in order, each with the container it is drawn in.\<close>

definition renders :: "event list \<Rightarrow> (container \<times> widget) list" where
  "renders evs = List.map_filter render_of evs"



text \<open>The \<^verbatim>\<open>use_cache\<close> flags that reach the nPMI class and the nPMI widget.\<close>

fun npmi_flag_of :: "event \<Rightarrow> bool option" where
  "npmi_flag_of (NPMI_construct n b) = Some b"
| "npmi_flag_of (Get_available_terms n b) = Some b"
| "npmi_flag_of (Render col (Npmi_widget cid n k b)) = Some b"
| "npmi_flag_of _ = None"

definition npmi_flags :: "event list \<Rightarrow> bool list" where
  "npmi_flags evs = List.map_filter npmi_flag_of evs"

text \<open>
  The keyword arguments an object was constructed from, read off a trace: those of
  the constructor call that created the object.
\<close>

definition kwargs_of :: "event list \<Rightarrow> nat \<Rightarrow> pydict option" where
  "kwargs_of tr n = map_option snd (map_of (constructs tr) n)"

text \<open>
  The calls of one complete execution of \<^verbatim>\<open>load_or_prepare\<close> that starts in a
  given world.
\<close>

definition load_events ::
  "constants \<Rightarrow> pydict \<Rightarrow> bool \<Rightarrow> bool option \<Rightarrow> world \<Rightarrow> event list" where
  "load_events c ds_args show_embeddings use_cache_arg w =
     new_events w (world_after (load_or_prepare c ds_args show_embeddings use_cache_arg w))"

text \<open>
  What every world that the script reaches satisfies: the objects named in the
  trace are older than the next object, and an object in the store of \<^verbatim>\<open>st.cache\<close>
  was constructed from the dataset arguments it is stored under.
\<close>

definition consistent :: "world \<Rightarrow> bool" where
  "consistent w =
     (list_all (\<lambda>(n, dir, args). n < next_oid w) (constructs (trace w)) \<and>
      list_all (\<lambda>((args, se, uc), d). kwargs_of (trace w) (oid d) = Some args) (memo w))"

text \<open>
  The second fact of every world that the script reaches: a store of \<^verbatim>\<open>st.cache\<close>
  that holds a result was filled by an execution of \<^verbatim>\<open>load_or_prepare\<close>, which
  left the cache directory behind.
\<close>

definition cache_dir_backed :: "constants \<Rightarrow> world \<Rightarrow> bool" where
  "cache_dir_backed c w = (memo w = [] \<or> isdir w (CACHE_DIR c))"

section \<open>A first run\<close>

text \<open>The world of a fresh process in an empty working directory.\<close>

definition initial_world :: world where
  "initial_world =
     \<lparr>dirs = {}, logs = new_logger, next_oid = 0, memo = [], current = Page, trace = []\<rparr>"

text \<open>
  The calls of one complete execution of \<^verbatim>\<open>show_column\<close> under \<^verbatim>\<open>with col:\<close>. They
  are read off an execution in the first world; the world has no part in them.
\<close>

definition column_events ::
  "constants \<Rightarrow> statistics_class \<Rightarrow> dstats \<Rightarrow> pyval \<Rightarrow> bool \<Rightarrow> string \<Rightarrow>
   bool option \<Rightarrow> container \<Rightarrow> event list" where
  "column_events c cls d ds_name_to_dict show_embeddings column_id use_cache_arg col =
     new_events initial_world
       (within col (show_column c cls d ds_name_to_dict show_embeddings column_id
          use_cache_arg) initial_world)"

text \<open>Values for the imported constants, to run the definitions on.\<close>

definition example_constants :: constants where
  "example_constants =
     \<lparr>CACHE_DIR = ''cache_dir'', OUR_TEXT_FIELD = ''text'', OUR_LABEL_FIELD = ''label'',
      TOKENIZED_FIELD = ''tokenized_text'', EMBEDDING_FIELD = ''embedding'',
      LENGTH_FIELD = ''length''\<rparr>"




text \<open>
  Dataset arguments, and the world after one call of the decorated
  \<^verbatim>\<open>load_or_prepare\<close> with them in the first world: the store holds their result.
\<close>

definition example_args :: pydict where
  "example_args = [(''dset_name'', PyStr ''glue''), (''dset_config'', PyStr ''cola'')]"

definition after_first_call :: world where
  "after_first_call =
     world_after (st_cache (load_or_prepare example_constants) example_args False None
       initial_world)"

section \<open>What one execution of \<^verbatim>\<open>load_or_prepare\<close> does\<close>

lemma on_world_pair: "on_world f (d, w) = (d, f w)"
  by (simp add: on_world_def)

lemma invoke_pair:
  "invoke s b (d, w) =
     (d\<lparr>prepared := prepared d @ [(s, b)]\<rparr>, w\<lparr>trace := trace w @ [Prepare (oid d) s b]\<rparr>)"
  by (simp add: invoke_def emit_def)

lemma print_fig_tree_pair:
  "print_fig_tree (d, w) = (d, w\<lparr>trace := trace w @ [Print_fig_tree (oid d)]\<rparr>)"
  by (simp add: print_fig_tree_def emit_def)

lemma warning_trace: "warning m w = w\<lparr>trace := trace w @ [Log WARNING m]\<rparr>"
  by (simp add: warning_def emit_def)

lemmas step_defs = load_or_prepare_dataset_def load_or_prepare_labels_def
  load_or_prepare_text_lengths_def load_or_prepare_vocab_def
  load_or_prepare_general_stats_def load_or_prepare_embeddings_def
  load_or_prepare_npmi_terms_def load_or_prepare_zipf_def

lemmas lp_simps = load_or_prepare_def isdir_def mkdir_def step_defs on_world_pair
  invoke_pair print_fig_tree_pair warning_trace DatasetStatisticsCacheClass_def emit_def Let_def

text \<open>
  The function executed symbolically: the object it returns and the world it
  leaves, for every argument and every world. The exception branch of
  \<^verbatim>\<open>mkdir\<close> does not show, because the guard \<^verbatim>\<open>not isdir(CACHE_DIR)\<close> excludes it.
\<close>

lemma load_or_prepare_unfold:
  "load_or_prepare c ds se uc w =
     \<lparr>returned = Inr \<lparr>oid = next_oid w, cache_dir = CACHE_DIR c, kwargs = ds,
          prepared = map (\<lambda>s. (s, or_default False uc))
            ([Dataset, Labels, Text_lengths, Vocab, General_stats] @
             (if se then [Embeddings] else []) @ [Npmi_terms, Zipf])\<rparr>,
      ds_args_after = ds,
      world_after = w\<lparr>dirs := insert (CACHE_DIR c) (dirs w),
        next_oid := Suc (next_oid w),
        trace := trace w @
          (if isdir w (CACHE_DIR c) then []
           else [Log WARNING ''Creating cache'', Mkdir (CACHE_DIR c)]) @
          (if or_default False uc then [Log WARNING ''Using cache''] else []) @
          [Construct (next_oid w) (CACHE_DIR c) ds,
           Log WARNING ''Loading Dataset'',
           Prepare (next_oid w) Dataset (or_default False uc),
           Log WARNING ''Extracting Labels'',
           Prepare (next_oid w) Labels (or_default False uc),
           Log WARNING ''Computing Text Lengths'',
           Prepare (next_oid w) Text_lengths (or_default False uc),
           Log WARNING ''Extracting Vocabulary'',
           Prepare (next_oid w) Vocab (or_default False uc),
           Log WARNING ''Calculating General Statistics...'',
           Prepare (next_oid w) General_stats (or_default False uc),
           Log WARNING ''Completed Calculation.'',
           Log WARNING ''Calculating Fine-Grained Statistics...''] @
          (if se then [Log WARNING ''Loading Embeddings'',
                       Prepare (next_oid w) Embeddings (or_default False uc),
                       Print_fig_tree (next_oid w)] else []) @
          [Log WARNING ''Loading Terms for nPMI'',
           Prepare (next_oid w) Npmi_terms (or_default False uc),
           Log WARNING ''Loading Zipf'',
           Prepare (next_oid w) Zipf (or_default False uc)]\<rparr>\<rparr>"
proof (cases "CACHE_DIR c \<in> dirs w"; cases se; cases "or_default False uc")
qed (simp_all add: lp_simps insert_absorb)

lemmas obs_simps = new_events_def prepares_def constructs_def isdir_def

section \<open>The logger, \<^verbatim>\<open>show_column\<close> and the decorator\<close>

lemma info_trace: "info m w = w\<lparr>trace := trace w @ [Log INFO m]\<rparr>"
  by (simp add: info_def emit_def)

lemma render_trace: "render g w = w\<lparr>trace := trace w @ [Render (current w) g]\<rparr>"
  by (simp add: render_def emit_def)

lemma show_column_unfold:
  "show_column c cls d i se cid uc w =
     w\<lparr>trace := trace w @
        [Render (current w) (Markdown (title_str cls cid d)),
         Log INFO ''showing header'',
         Render (current w) (Expander_header (oid d) i cid),
         Log INFO ''showing general stats'',
         Render (current w) (Expander_general_stats (oid d) 10 cid),
         Render (current w) (Expander_label_distribution (oid d) cid),
         Render (current w) (Expander_text_lengths (oid d) (OUR_TEXT_FIELD c) (LENGTH_FIELD c) cid),
         Render (current w) (Expander_text_duplicates (oid d) cid),
         Log INFO ''showing npmi widget'',
         NPMI_construct (oid d) (or_default True uc),
         Get_available_terms (oid d) (or_default True uc),
         Render (current w) (Npmi_widget cid (oid d) 10 (or_default True uc)),
         Log INFO ''showing zipf'',
         Render (current w) (Expander_zipf (oid d) cid)] @
        (if se then [Render (current w) (Expander_text_embeddings (oid d) (OUR_TEXT_FIELD c) cid)]
         else [])\<rparr>"
  by (cases se)
    (simp_all add: show_column_def info_trace render_trace emit_def Let_def
      SHOW_TOP_N_WORDS_def MIN_VOCAB_COUNT_def)

lemma logging_setup_unfold:
  "logging_setup w =
     (if handlers (logs w) = [] then
        w\<lparr>dirs := insert ''./log_files'' (dirs w),
          logs := \<lparr>level = WARNING, propagate = False,
            handlers = [\<lparr>target = File ''./log_files/app.log'', hlevel = INFO,
                         formatter = Some ''%(asctime)s:%(message)s''\<rparr>,
                        \<lparr>target = Stream, hlevel = WARNING,
                         formatter = Some ''[data_measurements_tool] %(message)s''\<rparr>]\<rparr>,
          trace := trace w @ (if ''./log_files'' \<in> dirs w then [] else [Mkdir ''./log_files''])\<rparr>
      else w\<lparr>logs := (logs w)\<lparr>level := WARNING, propagate := False\<rparr>\<rparr>)"
  by (cases "''./log_files'' \<in> dirs w")
   (simp_all add: logging_setup_def setLevel_def set_propagate_def Path_mkdir_exist_ok_def
      FileHandler_def StreamHandler_def setLevel_handler_def setFormatter_def addHandler_def
      emit_def Let_def insert_absorb)

text \<open>
  Claim C6. The module level logging statements give the logger its two handlers
  (a file handler of level \<^verbatim>\<open>INFO\<close> on \<^verbatim>\<open>./log_files/app.log\<close>, then a stream handler
  of level \<^verbatim>\<open>WARNING\<close>) exactly when it has none, and leave the handlers alone
  otherwise. Run a second time they change nothing: neither the handlers nor the
  rest of the world. In every case the logger ends with level \<^verbatim>\<open>WARNING\<close> and
  propagation off.
\<close>

theorem logging_setup_idempotent:
  "let w1 = logging_setup w
   in handlers (logs w1) =
        (if handlers (logs w) = [] then
           [\<lparr>target = File ''./log_files/app.log'', hlevel = INFO,
             formatter = Some ''%(asctime)s:%(message)s''\<rparr>,
            \<lparr>target = Stream, hlevel = WARNING,
             formatter = Some ''[data_measurements_tool] %(message)s''\<rparr>]
         else handlers (logs w)) \<and>
      handlers (logs (logging_setup w1)) = handlers (logs w1) \<and>
      logging_setup w1 = w1 \<and>
      level (logs w1) = WARNING \<and> propagate (logs w1) = False"
  by (simp add: logging_setup_unfold Let_def)

text \<open>
  Claim C10. \<^verbatim>\<open>show_column\<close> draws, in this order, the title, the header, the
  general statistics (top 10 words), the label distribution, the text lengths, the
  text duplicates, the nPMI widget (minimum vocabulary count 10) and the Zipf
  expander, on every call; the text embeddings expander comes last, exactly when
  \<^verbatim>\<open>show_embeddings\<close> is true. All are drawn in the current container.
\<close>

theorem show_column_widget_order:
  "let evs = new_events w (show_column c cls d ds_name_to_dict show_embeddings column_id use_cache w)
   in map snd (renders evs) =
        [Markdown (title_str cls column_id d),
         Expander_header (oid d) ds_name_to_dict column_id,
         Expander_general_stats (oid d) 10 column_id,
         Expander_label_distribution (oid d) column_id,
         Expander_text_lengths (oid d) (OUR_TEXT_FIELD c) (LENGTH_FIELD c) column_id,
         Expander_text_duplicates (oid d) column_id,
         Npmi_widget column_id (oid d) 10 (case use_cache of None \<Rightarrow> True | Some b \<Rightarrow> b),
         Expander_zipf (oid d) column_id] @
        (if show_embeddings
         then [Expander_text_embeddings (oid d) (OUR_TEXT_FIELD c) column_id] else []) \<and>
      map fst (renders evs) = replicate (length (renders evs)) (current w)"
  by (cases show_embeddings)
    (simp_all add: show_column_unfold new_events_def renders_def or_default_def)

lemma st_cache_hit:
  "map_of (memo w) (ds, se, uc) = Some d \<Longrightarrow>
   st_cache f ds se uc w =
     \<lparr>returned = Inr d, ds_args_after = ds,
      world_after = w\<lparr>trace := trace w @ [Cached_call ds se uc]\<rparr>\<rparr>"
  by (simp add: st_cache_def emit_def Let_def)

lemma st_cache_miss:
  "map_of (memo w) (ds, se, uc) = None \<Longrightarrow>
   st_cache (load_or_prepare c) ds se uc w =
     (let w1 = w\<lparr>trace := trace w @ [Cached_call ds se uc]\<rparr>;
          out = load_or_prepare c ds se uc w1
      in \<lparr>returned = returned out, ds_args_after = ds,
          world_after = (world_after out)
            \<lparr>memo := ((ds, se, uc), projr (returned out)) # memo w\<rparr>\<rparr>)"
  by (simp add: st_cache_def emit_def Let_def load_or_prepare_unfold)

lemma cached_load_shape:
  "\<exists>d body w'.
     st_cache (load_or_prepare c) ds se uc w =
       \<lparr>returned = Inr d, ds_args_after = ds, world_after = w'\<rparr> \<and>
     trace w' = trace w @ Cached_call ds se uc # body \<and>
     current w' = current w \<and>
     (body = [] \<or> body = load_events c ds se uc (emit (Cached_call ds se uc) w))"
proof (cases "map_of (memo w) (ds, se, uc)")
  case None
  then show ?thesis
    by (simp add: st_cache_miss Let_def load_events_def new_events_def emit_def
        load_or_prepare_unfold)
next
  case (Some d)
  then show ?thesis
    by (simp add: st_cache_hit)
qed

lemma constructs_append: "constructs (xs @ ys) = constructs xs @ constructs ys"
  by (simp add: constructs_def map_filter_def)

lemma constructs_load_events:
  "constructs (load_events c ds se uc w) = [(next_oid w, CACHE_DIR c, ds)]"
  by (cases "CACHE_DIR c \<in> dirs w"; cases se; cases "or_default False uc")
    (simp_all add: load_events_def load_or_prepare_unfold obs_simps)

lemma trace_load: 
  "trace (world_after (load_or_prepare c ds se uc w)) = trace w @ load_events c ds se uc w"
  by (simp add: load_events_def new_events_def load_or_prepare_unfold)

lemma map_of_fresh:
  "list_all (\<lambda>(n, dir, args). n < (k::nat)) cs \<Longrightarrow> map_of (cs @ [(k, v)]) k = Some v"
proof -
  assume a: "list_all (\<lambda>(n, dir, args). n < k) cs"
  have "k \<notin> fst ` set cs"
  proof
    assume "k \<in> fst ` set cs"
    then obtain n dir args where "(n, dir, args) \<in> set cs" and "n = k" by auto
    with a have "k < k" by (fastforce simp: list_all_iff)
    then show False by simp
  qed
  then have "map_of cs k = None" by (simp add: map_of_eq_None_iff)
  then show ?thesis by (simp add: map_add_def)
qed

lemma kwargs_of_extend:
  "kwargs_of tr n = Some a \<Longrightarrow> kwargs_of (tr @ evs) n = Some a"
  by (auto simp: kwargs_of_def constructs_append map_add_def split: option.splits)

lemma consistent_extend:
  "consistent w \<Longrightarrow> constructs evs = [] \<Longrightarrow> consistent (w\<lparr>trace := trace w @ evs\<rparr>)"
  by (simp add: consistent_def constructs_append kwargs_of_def)

lemma consistent_load:
  assumes "consistent w"
  shows "consistent ((world_after (load_or_prepare c ds se uc w))
           \<lparr>memo := ((ds, se, uc), projr (returned (load_or_prepare c ds se uc w))) # memo w\<rparr>)"
    and "kwargs_of (trace (world_after (load_or_prepare c ds se uc w))) (next_oid w) = Some ds"
proof -
  let ?w' = "world_after (load_or_prepare c ds se uc w)"
  have fresh: "list_all (\<lambda>(n, dir, args). n < next_oid w) (constructs (trace w))"
    using assms by (simp add: consistent_def)
  have cs: "constructs (trace ?w') = constructs (trace w) @ [(next_oid w, CACHE_DIR c, ds)]"
    by (simp add: trace_load constructs_append constructs_load_events)
  show k: "kwargs_of (trace ?w') (next_oid w) = Some ds"
    using map_of_fresh [OF fresh] by (simp add: kwargs_of_def cs)
  have n: "next_oid ?w' = Suc (next_oid w)" and m: "memo ?w' = memo w"
    by (simp_all add: load_or_prepare_unfold)
  have o: "oid (projr (returned (load_or_prepare c ds se uc w))) = next_oid w"
    by (simp add: load_or_prepare_unfold)
  have old: "list_all (\<lambda>((args, se, uc), d). kwargs_of (trace ?w') (oid d) = Some args) (memo w)"
    using assms by (auto simp: consistent_def list_all_iff trace_load intro: kwargs_of_extend)
  have new: "list_all (\<lambda>(n, dir, args). n < Suc (next_oid w)) (constructs (trace ?w'))"
    using fresh by (auto simp: cs list_all_iff)
  show "consistent (?w'\<lparr>memo := ((ds, se, uc), projr (returned (load_or_prepare c ds se uc w))) # memo w\<rparr>)"
    using old new k by (simp add: consistent_def n o)
qed

lemma cached_load_consistent:
  assumes "consistent w"
    and "returned (st_cache (load_or_prepare c) ds se uc w) = Inr d"
  shows "consistent (world_after (st_cache (load_or_prepare c) ds se uc w)) \<and>
         kwargs_of (trace (world_after (st_cache (load_or_prepare c) ds se uc w))) (oid d)
           = Some ds"
proof (cases "map_of (memo w) (ds, se, uc)")
  case None
  let ?w1 = "w\<lparr>trace := trace w @ [Cached_call ds se uc]\<rparr>"
  have c1: "consistent ?w1"
    using assms(1) by (rule consistent_extend) (simp add: constructs_def)
  have r: "returned (load_or_prepare c ds se uc ?w1) = Inr d"
    using assms(2) None by (simp add: st_cache_miss Let_def)
  have eq: "world_after (st_cache (load_or_prepare c) ds se uc w) =
      (world_after (load_or_prepare c ds se uc ?w1))
      \<lparr>memo := ((ds, se, uc), projr (returned (load_or_prepare c ds se uc ?w1))) # memo ?w1\<rparr>"
    using None by (simp add: st_cache_miss Let_def)
  from r have "d = projr (returned (load_or_prepare c ds se uc ?w1))"
    by simp
  then have "oid d = next_oid ?w1"
    by (simp add: load_or_prepare_unfold)
  with consistent_load [OF c1, where c = c and ds = ds and se = se and uc = uc] show ?thesis
    by (simp add: eq)
next
  case (Some d')
  then have eq: "world_after (st_cache (load_or_prepare c) ds se uc w) =
      w\<lparr>trace := trace w @ [Cached_call ds se uc]\<rparr>" and d: "d = d'"
    using assms(2) by (simp_all add: st_cache_hit)
  have c1: "consistent (w\<lparr>trace := trace w @ [Cached_call ds se uc]\<rparr>)"
    using assms(1) by (rule consistent_extend) (simp add: constructs_def)
  from Some have "((ds, se, uc), d') \<in> set (memo w)" by (rule map_of_SomeD)
  with assms(1) have "kwargs_of (trace w) (oid d') = Some ds"
    by (auto simp: consistent_def list_all_iff)
  then have "kwargs_of (trace w @ [Cached_call ds se uc]) (oid d) = Some ds"
    by (simp add: d kwargs_of_extend)
  with c1 show ?thesis by (simp add: eq)
qed

lemma cached_load_backed:
  assumes "cache_dir_backed c w"
  shows "cache_dir_backed c (world_after (st_cache (load_or_prepare c) ds se uc w))"
proof (cases "map_of (memo w) (ds, se, uc)")
  case None
  then show ?thesis
    by (simp add: st_cache_miss Let_def load_or_prepare_unfold cache_dir_backed_def isdir_def)
next
  case (Some stored)
  then show ?thesis
    using assms by (simp add: st_cache_hit cache_dir_backed_def isdir_def)
qed

section \<open>What a call of \<^verbatim>\<open>load_or_prepare\<close> does\<close>

text \<open>
  A call \<^verbatim>\<open>load_or_prepare(...)\<close> is a call of the decorated function. It executes
  the function when the store of \<^verbatim>\<open>st.cache\<close> holds nothing for the arguments, and
  returns the stored object otherwise. After one call in the first world the store
  holds the object of that call.
\<close>

lemma after_first_call_memo:
  "map_of (memo after_first_call) (example_args, False, None) =
     Some \<lparr>oid = 0, cache_dir = ''cache_dir'', kwargs = example_args,
       prepared = [(Dataset, False), (Labels, False), (Text_lengths, False), (Vocab, False),
         (General_stats, False), (Npmi_terms, False), (Zipf, False)]\<rparr>"
  by (simp add: after_first_call_def st_cache_miss initial_world_def Let_def
      load_or_prepare_unfold example_constants_def or_default_def)

text \<open>
  Claim C1, as amended. A call of \<^verbatim>\<open>load_or_prepare\<close> returns a statistics object,
  never an exception and never \<^verbatim>\<open>None\<close>. When the store holds nothing for the
  arguments, the call makes one constructor call, with \<^verbatim>\<open>CACHE_DIR\<close> and
  \<^verbatim>\<open>ds_args\<close>; the object returned is the one that call created; every preparation
  step of the call is invoked on that object, and the object carries exactly those
  steps. When the store holds an object for the arguments, the call returns that
  object, constructs nothing and invokes no step.
\<close>

theorem cached_load_or_prepare_returns_object:
  "let out = st_cache (load_or_prepare c) ds_args show_embeddings use_cache w;
       evs = new_events w (world_after out)
   in \<exists>d. returned out = Inr d \<and>
        (case map_of (memo w) (ds_args, show_embeddings, use_cache) of
           None \<Rightarrow>
             constructs evs = [(oid d, CACHE_DIR c, ds_args)] \<and>
             cache_dir d = CACHE_DIR c \<and> kwargs d = ds_args \<and>
             prepares evs \<noteq> [] \<and>
             map fst (prepares evs) = replicate (length (prepares evs)) (oid d) \<and>
             prepared d = map snd (prepares evs)
         | Some stored \<Rightarrow> d = stored \<and> constructs evs = [] \<and> prepares evs = [])"
proof (cases "map_of (memo w) (ds_args, show_embeddings, use_cache)")
  case None
  then show ?thesis
    by (cases "CACHE_DIR c \<in> dirs w"; cases show_embeddings;
        cases "or_default False use_cache")
      (simp_all add: st_cache_miss Let_def load_or_prepare_unfold obs_simps)
next
  case (Some stored)
  then show ?thesis
    by (simp add: st_cache_hit Let_def obs_simps)
qed

text \<open>
  Claim C1 as stated fails: the second of two calls with the same arguments
  constructs no object.
\<close>

theorem stored_result_constructs_nothing_counterexample:
  "constructs (new_events after_first_call
     (world_after (st_cache (load_or_prepare example_constants) example_args False None
        after_first_call))) = []"
  by (simp add: st_cache_hit [OF after_first_call_memo] obs_simps)

text \<open>
  Claim C2, as amended. A call of \<^verbatim>\<open>load_or_prepare\<close> that the store does not answer
  invokes the methods of the statistics object in the order dataset, labels, text
  lengths, vocabulary, general statistics, embeddings (when \<^verbatim>\<open>show_embeddings\<close>
  holds, and only then), nPMI terms, Zipf: each once, all on the object just
  constructed, each with the \<^verbatim>\<open>use_cache\<close> flag of the caller (\<^verbatim>\<open>False\<close> when the
  caller gives none). A call that the store answers invokes none of them.
\<close>

theorem cached_load_or_prepare_step_order:
  "prepares (new_events w
       (world_after (st_cache (load_or_prepare c) ds_args show_embeddings use_cache w))) =
     (case map_of (memo w) (ds_args, show_embeddings, use_cache) of
        None \<Rightarrow>
          map (\<lambda>s. (next_oid w, s, case use_cache of None \<Rightarrow> False | Some b \<Rightarrow> b))
            ([Dataset, Labels, Text_lengths, Vocab, General_stats] @
             (if show_embeddings then [Embeddings] else []) @ [Npmi_terms, Zipf])
      | Some stored \<Rightarrow> [])"
proof (cases "map_of (memo w) (ds_args, show_embeddings, use_cache)")
  case None
  then show ?thesis
    by (cases "CACHE_DIR c \<in> dirs w"; cases show_embeddings;
        cases "or_default False use_cache")
      (simp_all add: st_cache_miss Let_def load_or_prepare_unfold obs_simps or_default_def)
next
  case (Some stored)
  then show ?thesis
    by (simp add: st_cache_hit Let_def obs_simps)
qed

text \<open>
  Claim C2 as stated fails: the second of two calls with the same arguments does
  not invoke the seven steps that its arguments ask for.
\<close>

theorem stored_result_invokes_nothing_counterexample:
  "prepares (new_events after_first_call
     (world_after (st_cache (load_or_prepare example_constants) example_args False None
        after_first_call))) \<noteq>
   map (\<lambda>s. (next_oid after_first_call, s, False))
     [Dataset, Labels, Text_lengths, Vocab, General_stats, Npmi_terms, Zipf]"
  by (simp add: st_cache_hit [OF after_first_call_memo] obs_simps)

text \<open>
  Claim C3, as amended. A call of \<^verbatim>\<open>load_or_prepare\<close> that the store does not answer
  triggers the label distribution, the text lengths, the vocabulary, the nPMI terms
  and the Zipf fit, and triggers the embeddings exactly when \<^verbatim>\<open>show_embeddings\<close>
  is true. A call that the store answers triggers nothing.
\<close>

theorem cached_load_or_prepare_triggers:
  "let evs = new_events w
         (world_after (st_cache (load_or_prepare c) ds_args show_embeddings use_cache w))
   in case map_of (memo w) (ds_args, show_embeddings, use_cache) of
        None \<Rightarrow>
          {Labels, Text_lengths, Vocab, Npmi_terms, Zipf} \<subseteq> triggered evs \<and>
          (Embeddings \<in> triggered evs) = show_embeddings
      | Some stored \<Rightarrow> triggered evs = {}"
proof (cases "map_of (memo w) (ds_args, show_embeddings, use_cache)")
  case None
  then show ?thesis
    by (cases "CACHE_DIR c \<in> dirs w"; cases show_embeddings;
        cases "or_default False use_cache")
      (simp_all add: st_cache_miss Let_def load_or_prepare_unfold obs_simps triggered_def)
next
  case (Some stored)
  then show ?thesis
    by (simp add: st_cache_hit Let_def obs_simps triggered_def)
qed

text \<open>
  Claim C3 as stated fails twice: with \<^verbatim>\<open>show_embeddings = False\<close> a first call
  does not trigger all six statistics, because line 116 guards the embeddings; and
  a repeated call triggers none.
\<close>

theorem embeddings_not_triggered_counterexample:
  "\<not> {Labels, Text_lengths, Vocab, Npmi_terms, Zipf, Embeddings} \<subseteq>
       triggered (new_events initial_world
         (world_after (st_cache (load_or_prepare example_constants) example_args False None
            initial_world))) \<and>
   triggered (new_events after_first_call
     (world_after (st_cache (load_or_prepare example_constants) example_args False None
        after_first_call))) = {}"
proof -
  have "map_of (memo initial_world) (example_args, False, None) = None"
    by (simp add: initial_world_def)
  then show ?thesis
    by (simp add: st_cache_miss st_cache_hit [OF after_first_call_memo] Let_def
        load_or_prepare_unfold obs_simps triggered_def initial_world_def or_default_def)
qed




section \<open>The shape of a run of \<^verbatim>\<open>main\<close>\<close>

lemma within_show_column:
  "within col (show_column c cls d i se cid uc) w =
     w\<lparr>trace := trace w @ column_events c cls d i se cid uc col\<rparr>"
  by (cases se)
    (simp_all add: within_def column_events_def show_column_unfold new_events_def
      initial_world_def)

lemma constructs_column_events: "constructs (column_events c cls d i se cid uc col) = []"
  by (cases se)
    (simp_all add: within_def column_events_def show_column_unfold new_events_def
      constructs_def initial_world_def)

lemma consistent_within:
  "consistent w \<Longrightarrow> consistent (within col (show_column c cls d i se cid uc) w)"
  by (simp add: within_show_column consistent_extend constructs_column_events)

lemma main_compare_shape:
  assumes "compare_box u"
  shows "\<exists>dA dB loadA loadB wA wB.
     fst (main c cls u w) = Inr () \<and>
     trace (snd (main c cls u w)) = trace w @
       [Get_dataset_info_dicts, Title ''Data Measurements Tool'', Sidebar_header,
        Checkbox ''Comparison mode'', Checkbox ''Show embeddings'',
        Log WARNING ''Using Comparison Mode'',
        Sidebar_selection (info_dicts u) '' A'', Sidebar_selection (info_dicts u) '' B'',
        Columns [10, 1, 10]] @
       Cached_call (selection u (info_dicts u) '' A'') (embeddings_box u) (Some True) # loadA @
       column_events c cls dA (info_dicts u) (embeddings_box u) '' A'' None (Column 0) @
       Cached_call (selection u (info_dicts u) '' B'') (embeddings_box u) (Some True) # loadB @
       column_events c cls dB (info_dicts u) (embeddings_box u) '' B'' None (Column 2) \<and>
     (loadA = [] \<or>
      loadA = load_events c (selection u (info_dicts u) '' A'') (embeddings_box u) (Some True) wA) \<and>
     (loadB = [] \<or>
      loadB = load_events c (selection u (info_dicts u) '' B'') (embeddings_box u) (Some True) wB) \<and>
     current (snd (main c cls u w)) = current w \<and>
     (consistent w \<longrightarrow>
        consistent (snd (main c cls u w)) \<and>
        kwargs_of (trace (snd (main c cls u w))) (oid dA) = Some (selection u (info_dicts u) '' A'') \<and>
        kwargs_of (trace (snd (main c cls u w))) (oid dB) = Some (selection u (info_dicts u) '' B'')) \<and>
     (cache_dir_backed c w \<longrightarrow> cache_dir_backed c (snd (main c cls u w)))"
proof -
  let ?i = "info_dicts u" and ?se = "embeddings_box u"
  let ?selA = "selection u (info_dicts u) '' A''" and ?selB = "selection u (info_dicts u) '' B''"
  let ?pre = "[Get_dataset_info_dicts, Title ''Data Measurements Tool'', Sidebar_header,
        Checkbox ''Comparison mode'', Checkbox ''Show embeddings'',
        Log WARNING ''Using Comparison Mode'',
        Sidebar_selection ?i '' A'', Sidebar_selection ?i '' B'',
        Columns [10, 1, 10]]"
  let ?w1 = "emit (Columns [10, 1, 10]) (emit (Sidebar_selection ?i '' B'')
      (emit (Sidebar_selection ?i '' A'') (warning ''Using Comparison Mode''
      (emit (Checkbox ''Show embeddings'') (emit (Checkbox ''Comparison mode'')
      (emit Sidebar_header (emit (Title ''Data Measurements Tool'')
      (emit Get_dataset_info_dicts w))))))))"
  have w1: "?w1 = w\<lparr>trace := trace w @ ?pre\<rparr>"
    by (simp add: emit_def warning_def)
  obtain dA loadA wA where
    A: "st_cache (load_or_prepare c) ?selA ?se (Some True) ?w1 =
          \<lparr>returned = Inr dA, ds_args_after = ?selA, world_after = wA\<rparr>"
    and trA: "trace wA = trace ?w1 @ Cached_call ?selA ?se (Some True) # loadA"
    and curA: "current wA = current ?w1"
    and lA: "loadA = [] \<or>
       loadA = load_events c ?selA ?se (Some True) (emit (Cached_call ?selA ?se (Some True)) ?w1)"
    using cached_load_shape [of c ?selA ?se "Some True" ?w1] by blast
  let ?wA' = "within (Column 0) (show_column c cls dA ?i ?se '' A'' None) wA"
  obtain dB loadB wB where
    B: "st_cache (load_or_prepare c) ?selB ?se (Some True) ?wA' =
          \<lparr>returned = Inr dB, ds_args_after = ?selB, world_after = wB\<rparr>"
    and trB: "trace wB = trace ?wA' @ Cached_call ?selB ?se (Some True) # loadB"
    and curB: "current wB = current ?wA'"
    and lB: "loadB = [] \<or>
       loadB = load_events c ?selB ?se (Some True) (emit (Cached_call ?selB ?se (Some True)) ?wA')"
    using cached_load_shape [of c ?selB ?se "Some True" ?wA'] by blast
  let ?w' = "within (Column 2) (show_column c cls dB ?i ?se '' B'' None) wB"
  let ?a = "emit (Cached_call ?selA ?se (Some True)) ?w1"
  let ?b = "emit (Cached_call ?selB ?se (Some True)) ?wA'"
  have m: "main c cls u w = (Inr (), ?w')"
    using assms A B by (simp add: main_def Let_def)
  have trA': "trace ?wA' = trace wA @
      column_events c cls dA ?i ?se '' A'' None (Column 0)"
    by (simp add: within_show_column)
  have tr': "trace ?w' = trace wB @
      column_events c cls dB ?i ?se '' B'' None (Column 2)"
    by (simp add: within_show_column)
  have tr: "trace ?w' = trace w @ ?pre @
       Cached_call ?selA ?se (Some True) # loadA @
       column_events c cls dA ?i ?se '' A'' None (Column 0) @
       Cached_call ?selB ?se (Some True) # loadB @
       column_events c cls dB ?i ?se '' B'' None (Column 2)"
    unfolding tr' trB trA' trA w1 by simp
  have "current ?w' = current wB"
    by (simp add: within_show_column)
  also have "\<dots> = current ?wA'"
    by (rule curB)
  also have "\<dots> = current wA"
    by (simp add: within_show_column)
  also have "\<dots> = current ?w1"
    by (rule curA)
  also have "\<dots> = current w"
    by (simp add: emit_def warning_def)
  finally have cur: "current ?w' = current w" .
  have inv: "consistent ?w' \<and> kwargs_of (trace ?w') (oid dA) = Some ?selA \<and>
      kwargs_of (trace ?w') (oid dB) = Some ?selB" if c0: "consistent w"
  proof -
    have c1: "consistent ?w1"
      unfolding w1 using c0 by (rule consistent_extend) (simp add: constructs_def)
    have rA: "returned (st_cache (load_or_prepare c) ?selA ?se (Some True) ?w1) = Inr dA"
      and wa: "world_after (st_cache (load_or_prepare c) ?selA ?se (Some True) ?w1) = wA"
      by (simp_all add: A)
    from cached_load_consistent [OF c1 rA] have cA: "consistent wA"
      and kA: "kwargs_of (trace wA) (oid dA) = Some ?selA"
      by (simp_all add: wa)
    have cA': "consistent ?wA'" using cA by (rule consistent_within)
    have rB: "returned (st_cache (load_or_prepare c) ?selB ?se (Some True) ?wA') = Inr dB"
      and wb: "world_after (st_cache (load_or_prepare c) ?selB ?se (Some True) ?wA') = wB"
      by (simp_all add: B)
    from cached_load_consistent [OF cA' rB] have cB: "consistent wB"
      and kB: "kwargs_of (trace wB) (oid dB) = Some ?selB"
      by (simp_all add: wb)
    have c': "consistent ?w'" using cB by (rule consistent_within)
    have kB': "kwargs_of (trace ?w') (oid dB) = Some ?selB"
      unfolding tr' using kB by (rule kwargs_of_extend)
    have "kwargs_of (trace ?wA') (oid dA) = Some ?selA"
      unfolding trA' using kA by (rule kwargs_of_extend)
    then have "kwargs_of (trace wB) (oid dA) = Some ?selA"
      unfolding trB by (rule kwargs_of_extend)
    then have kA': "kwargs_of (trace ?w') (oid dA) = Some ?selA"
      unfolding tr' by (rule kwargs_of_extend)
    from c' kA' kB' show ?thesis by simp
  qed
  have bk: "cache_dir_backed c ?w'" if b0: "cache_dir_backed c w"
  proof -
    have b1: "cache_dir_backed c ?w1"
      using b0 by (simp add: w1 cache_dir_backed_def isdir_def)
    have "cache_dir_backed c wA"
      using cached_load_backed [OF b1, of ?selA ?se "Some True"] by (simp add: A)
    then have b2: "cache_dir_backed c ?wA'"
      by (simp add: within_show_column cache_dir_backed_def isdir_def)
    have "cache_dir_backed c wB"
      using cached_load_backed [OF b2, of ?selB ?se "Some True"] by (simp add: B)
    then show ?thesis
      by (simp add: within_show_column cache_dir_backed_def isdir_def)
  qed
  show ?thesis
    apply (rule exI [of _ dA], rule exI [of _ dB], rule exI [of _ loadA], rule exI [of _ loadB])
    apply (rule exI [of _ ?a], rule exI [of _ ?b])
    using lA lB inv cur tr bk by (simp add: m)
qed

lemma show_column_events:
  "show_column c cls d i se cid uc w =
     w\<lparr>trace := trace w @ column_events c cls d i se cid uc (current w)\<rparr>"
  by (cases se)
    (simp_all add: within_def column_events_def show_column_unfold new_events_def
      initial_world_def)

lemma consistent_show_column:
  "consistent w \<Longrightarrow> consistent (show_column c cls d i se cid uc w)"
  by (simp add: show_column_events consistent_extend constructs_column_events)

lemma main_single_shape:
  assumes "\<not> compare_box u"
  shows "\<exists>d load w1.
     fst (main c cls u w) = Inr () \<and>
     trace (snd (main c cls u w)) = trace w @
       [Get_dataset_info_dicts, Title ''Data Measurements Tool'', Sidebar_header,
        Checkbox ''Comparison mode'', Checkbox ''Show embeddings'',
        Log WARNING ''Using Single Dataset Mode'',
        Sidebar_selection (info_dicts u) []] @
       Cached_call (selection u (info_dicts u) []) (embeddings_box u) (Some True) # load @
       column_events c cls d (info_dicts u) (embeddings_box u) [] None (current w) \<and>
     (load = [] \<or>
      load = load_events c (selection u (info_dicts u) []) (embeddings_box u) (Some True) w1) \<and>
     current (snd (main c cls u w)) = current w \<and>
     (consistent w \<longrightarrow>
        consistent (snd (main c cls u w)) \<and>
        kwargs_of (trace (snd (main c cls u w))) (oid d) = Some (selection u (info_dicts u) [])) \<and>
     (cache_dir_backed c w \<longrightarrow> cache_dir_backed c (snd (main c cls u w)))"
proof -
  let ?i = "info_dicts u" and ?se = "embeddings_box u"
  let ?sel = "selection u (info_dicts u) []"
  let ?pre = "[Get_dataset_info_dicts, Title ''Data Measurements Tool'', Sidebar_header,
        Checkbox ''Comparison mode'', Checkbox ''Show embeddings'',
        Log WARNING ''Using Single Dataset Mode'',
        Sidebar_selection ?i []]"
  let ?w1 = "emit (Sidebar_selection ?i []) (warning ''Using Single Dataset Mode''
      (emit (Checkbox ''Show embeddings'') (emit (Checkbox ''Comparison mode'')
      (emit Sidebar_header (emit (Title ''Data Measurements Tool'')
      (emit Get_dataset_info_dicts w))))))"
  have w1: "?w1 = w\<lparr>trace := trace w @ ?pre\<rparr>"
    by (simp add: emit_def warning_def)
  obtain d load wd where
    A: "st_cache (load_or_prepare c) ?sel ?se (Some True) ?w1 =
          \<lparr>returned = Inr d, ds_args_after = ?sel, world_after = wd\<rparr>"
    and trA: "trace wd = trace ?w1 @ Cached_call ?sel ?se (Some True) # load"
    and curA: "current wd = current ?w1"
    and lA: "load = [] \<or>
       load = load_events c ?sel ?se (Some True) (emit (Cached_call ?sel ?se (Some True)) ?w1)"
    using cached_load_shape [of c ?sel ?se "Some True" ?w1] by blast
  let ?w' = "show_column c cls d ?i ?se [] None wd"
  let ?a = "emit (Cached_call ?sel ?se (Some True)) ?w1"
  have m: "main c cls u w = (Inr (), ?w')"
    using assms A by (simp add: main_def Let_def)
  have cur1: "current ?w1 = current w"
    by (simp add: emit_def warning_def)
  have cd: "current wd = current w"
    using curA cur1 by simp
  have tr': "trace ?w' = trace wd @ column_events c cls d ?i ?se [] None (current w)"
    by (simp add: show_column_events cd)
  have tr: "trace ?w' = trace w @ ?pre @ Cached_call ?sel ?se (Some True) # load @
       column_events c cls d ?i ?se [] None (current w)"
    unfolding tr' trA w1 by simp
  have cur: "current ?w' = current w"
    by (simp add: show_column_events cd)
  have inv: "consistent ?w' \<and> kwargs_of (trace ?w') (oid d) = Some ?sel" if c0: "consistent w"
  proof -
    have c1: "consistent ?w1"
      unfolding w1 using c0 by (rule consistent_extend) (simp add: constructs_def)
    have rA: "returned (st_cache (load_or_prepare c) ?sel ?se (Some True) ?w1) = Inr d"
      and wa: "world_after (st_cache (load_or_prepare c) ?sel ?se (Some True) ?w1) = wd"
      by (simp_all add: A)
    from cached_load_consistent [OF c1 rA] have cA: "consistent wd"
      and kA: "kwargs_of (trace wd) (oid d) = Some ?sel"
      by (simp_all add: wa)
    have c': "consistent ?w'" using cA by (rule consistent_show_column)
    have "kwargs_of (trace ?w') (oid d) = Some ?sel"
      unfolding tr' using kA by (rule kwargs_of_extend)
    with c' show ?thesis by simp
  qed
  have bk: "cache_dir_backed c ?w'" if b0: "cache_dir_backed c w"
  proof -
    have b1: "cache_dir_backed c ?w1"
      using b0 by (simp add: w1 cache_dir_backed_def isdir_def)
    have "cache_dir_backed c wd"
      using cached_load_backed [OF b1, of ?sel ?se "Some True"] by (simp add: A)
    then show ?thesis
      by (simp add: show_column_events cache_dir_backed_def isdir_def)
  qed
  show ?thesis
    apply (rule exI [of _ d], rule exI [of _ load], rule exI [of _ ?a])
    using lA inv cur tr bk by (simp add: m)
qed

text \<open>
  The decorator at work: a call repeated with the same arguments is answered from
  the store. It returns the object of the first call, and the only call it adds to
  the trace is the one to the wrapper.
\<close>

lemma st_cache_second_call:
  "let out1 = st_cache (load_or_prepare c) ds se uc w;
       out2 = st_cache (load_or_prepare c) ds se uc (world_after out1)
   in returned out2 = returned out1 \<and>
      new_events (world_after out1) (world_after out2) = [Cached_call ds se uc]"
proof (cases "map_of (memo w) (ds, se, uc)")
  case None
  then show ?thesis
    by (simp add: st_cache_miss st_cache_hit Let_def load_or_prepare_unfold new_events_def)
next
  case (Some d)
  then show ?thesis
    by (simp add: st_cache_hit Let_def new_events_def)
qed

text \<open>
  Both facts of a reachable world hold in the first world, where the store and the
  trace are empty, and every run of the script keeps them.
\<close>

lemma main_keeps_consistent:
  assumes "consistent w"
  shows "consistent (snd (main c cls u w))"
proof (cases "compare_box u")
  case True
  from main_compare_shape [OF True, of c cls w] assms show ?thesis by blast
next
  case False
  from main_single_shape [OF False, of c cls w] assms show ?thesis by blast
qed

lemma logging_setup_keeps_consistent:
  assumes "consistent w"
  shows "consistent (logging_setup w)"
proof -
  have "constructs (trace (logging_setup w)) = constructs (trace w)"
    by (simp add: logging_setup_unfold constructs_append) (simp add: constructs_def)
  moreover have "next_oid (logging_setup w) = next_oid w" "memo (logging_setup w) = memo w"
    by (simp_all add: logging_setup_unfold)
  ultimately show ?thesis
    using assms by (simp add: consistent_def kwargs_of_def)
qed

lemma script_keeps_consistent:
  assumes "consistent w"
  shows "consistent (snd (script c cls u w))"
proof -
  have "consistent (emit Set_page_config (logging_setup w))"
    unfolding emit_def
    using logging_setup_keeps_consistent [OF assms]
    by (rule consistent_extend) (simp add: constructs_def)
  then show ?thesis
    unfolding script_def by (rule main_keeps_consistent)
qed

lemma main_keeps_cache_dir_backed:
  assumes "cache_dir_backed c w"
  shows "cache_dir_backed c (snd (main c cls u w))"
proof (cases "compare_box u")
  case True
  from main_compare_shape [OF True, of c cls w] assms show ?thesis by blast
next
  case False
  from main_single_shape [OF False, of c cls w] assms show ?thesis by blast
qed

lemma script_keeps_cache_dir_backed:
  assumes "cache_dir_backed c w"
  shows "cache_dir_backed c (snd (script c cls u w))"
proof -
  have "cache_dir_backed c (emit Set_page_config (logging_setup w))"
    using assms
    by (auto simp: logging_setup_unfold emit_def cache_dir_backed_def isdir_def)
  then show ?thesis
    unfolding script_def by (rule main_keeps_cache_dir_backed)
qed

section \<open>What a run of \<^verbatim>\<open>main\<close> does\<close>

lemma map_filter_app: "List.map_filter f (xs @ ys) = List.map_filter f xs @ List.map_filter f ys"
  by (simp add: map_filter_def)

lemma column_events_unfold:
  "column_events c cls d i se cid uc col =
        [Render col (Markdown (title_str cls cid d)),
         Log INFO ''showing header'',
         Render col (Expander_header (oid d) i cid),
         Log INFO ''showing general stats'',
         Render col (Expander_general_stats (oid d) 10 cid),
         Render col (Expander_label_distribution (oid d) cid),
         Render col (Expander_text_lengths (oid d) (OUR_TEXT_FIELD c) (LENGTH_FIELD c) cid),
         Render col (Expander_text_duplicates (oid d) cid),
         Log INFO ''showing npmi widget'',
         NPMI_construct (oid d) (or_default True uc),
         Get_available_terms (oid d) (or_default True uc),
         Render col (Npmi_widget cid (oid d) 10 (or_default True uc)),
         Log INFO ''showing zipf'',
         Render col (Expander_zipf (oid d) cid)] @
        (if se then [Render col (Expander_text_embeddings (oid d) (OUR_TEXT_FIELD c) cid)]
         else [])"
  by (cases se)
    (simp_all add: within_def column_events_def show_column_unfold new_events_def
      initial_world_def)

lemma load_events_either:
  assumes "load = [] \<or> load = load_events c ds se uc w"
  obtains "load = []" | "load = load_events c ds se uc w"
  using assms by blast

lemma cached_calls_list:
  "cached_calls [] = []"
  "cached_calls (e # xs) =
     (case cached_call_of e of None \<Rightarrow> cached_calls xs | Some y \<Rightarrow> y # cached_calls xs)"
  "cached_calls (xs @ ys) = cached_calls xs @ cached_calls ys"
  by (simp_all add: cached_calls_def map_filter_app split: option.splits)

lemma cached_calls_load:
  assumes "load = [] \<or> load = load_events c ds se uc w"
  shows "cached_calls load = []"
  using assms
  by (rule load_events_either)
    (cases "CACHE_DIR c \<in> dirs w"; cases se; cases "or_default False uc";
      simp add: load_events_def load_or_prepare_unfold new_events_def isdir_def
        cached_calls_def)+

lemma cached_calls_column: "cached_calls (column_events c cls d i se cid uc col) = []"
  by (cases se) (simp_all add: column_events_unfold cached_calls_def)

lemma prepares_list:
  "prepares [] = []"
  "prepares (e # xs) =
     (case prepare_of e of None \<Rightarrow> prepares xs | Some y \<Rightarrow> y # prepares xs)"
  "prepares (xs @ ys) = prepares xs @ prepares ys"
  by (simp_all add: prepares_def map_filter_app split: option.splits)

lemma prepares_load:
  assumes "load = [] \<or> load = load_events c ds se uc w"
  shows "map (\<lambda>(n, s, b). b) (prepares load) =
     replicate (length (prepares load)) (or_default False uc)"
  using assms
  by (rule load_events_either)
    (cases "CACHE_DIR c \<in> dirs w"; cases se; cases "or_default False uc";
      simp add: load_events_def load_or_prepare_unfold new_events_def isdir_def
        prepares_def)+

lemma prepares_column: "prepares (column_events c cls d i se cid uc col) = []"
  by (cases se) (simp_all add: column_events_unfold prepares_def)

lemma npmi_flags_list:
  "npmi_flags [] = []"
  "npmi_flags (e # xs) =
     (case npmi_flag_of e of None \<Rightarrow> npmi_flags xs | Some y \<Rightarrow> y # npmi_flags xs)"
  "npmi_flags (xs @ ys) = npmi_flags xs @ npmi_flags ys"
  by (simp_all add: npmi_flags_def map_filter_app split: option.splits)

lemma npmi_flags_load:
  assumes "load = [] \<or> load = load_events c ds se uc w"
  shows "npmi_flags load = []"
  using assms
  by (rule load_events_either)
    (cases "CACHE_DIR c \<in> dirs w"; cases se; cases "or_default False uc";
      simp add: load_events_def load_or_prepare_unfold new_events_def isdir_def
        npmi_flags_def)+

lemma npmi_flags_column:
  "npmi_flags (column_events c cls d i se cid uc col) =
     [or_default True uc, or_default True uc, or_default True uc]"
  by (cases se) (simp_all add: column_events_unfold npmi_flags_def)









text \<open>
  Claim C8. Every call of \<^verbatim>\<open>main\<close> to \<^verbatim>\<open>load_or_prepare\<close>, two in comparison mode
  and one otherwise, passes \<^verbatim>\<open>use_cache=True\<close>, and every method call on a
  statistics object during a run carries \<^verbatim>\<open>True\<close>. Every \<^verbatim>\<open>show_column\<close> call of
  \<^verbatim>\<open>main\<close> hands \<^verbatim>\<open>True\<close>, its default, to the nPMI class, to
  \<^verbatim>\<open>get_available_terms\<close> and to the nPMI widget. The default of
  \<^verbatim>\<open>load_or_prepare\<close> itself is \<^verbatim>\<open>False\<close>: omitting the argument is passing
  \<^verbatim>\<open>False\<close>.
\<close>

theorem main_always_uses_cache:
  "let evs = new_events w (snd (main c cls u w))
   in map (\<lambda>(args, se, uc). uc) (cached_calls evs) =
        (if compare_box u then [Some True, Some True] else [Some True]) \<and>
      map (\<lambda>(n, s, b). b) (prepares evs) = replicate (length (prepares evs)) True \<and>
      npmi_flags evs =
        (if compare_box u then [True, True, True, True, True, True] else [True, True, True]) \<and>
      load_or_prepare c ds_args show_embeddings None w0 =
        load_or_prepare c ds_args show_embeddings (Some False) w0"
proof (cases "compare_box u")
  case True
  from main_compare_shape [OF True, of c cls w]
  obtain dA dB loadA loadB wA wB where
    tr: "trace (snd (main c cls u w)) = trace w @
       [Get_dataset_info_dicts, Title ''Data Measurements Tool'', Sidebar_header,
        Checkbox ''Comparison mode'', Checkbox ''Show embeddings'',
        Log WARNING ''Using Comparison Mode'',
        Sidebar_selection (info_dicts u) '' A'', Sidebar_selection (info_dicts u) '' B'',
        Columns [10, 1, 10]] @
       Cached_call (selection u (info_dicts u) '' A'') (embeddings_box u) (Some True) # loadA @
       column_events c cls dA (info_dicts u) (embeddings_box u) '' A'' None (Column 0) @
       Cached_call (selection u (info_dicts u) '' B'') (embeddings_box u) (Some True) # loadB @
       column_events c cls dB (info_dicts u) (embeddings_box u) '' B'' None (Column 2)"
    and lA: "loadA = [] \<or>
      loadA = load_events c (selection u (info_dicts u) '' A'') (embeddings_box u) (Some True) wA"
    and lB: "loadB = [] \<or>
      loadB = load_events c (selection u (info_dicts u) '' B'') (embeddings_box u) (Some True) wB"
    by blast
  have d: "load_or_prepare c ds_args show_embeddings None w0 =
        load_or_prepare c ds_args show_embeddings (Some False) w0"
    by (simp add: load_or_prepare_unfold or_default_def)
  have evs: "new_events w (snd (main c cls u w)) =
       ([Get_dataset_info_dicts] @ [Title ''Data Measurements Tool''] @ [Sidebar_header] @
        [Checkbox ''Comparison mode''] @ [Checkbox ''Show embeddings''] @
        [Log WARNING ''Using Comparison Mode''] @
        [Sidebar_selection (info_dicts u) '' A''] @ [Sidebar_selection (info_dicts u) '' B''] @
        [Columns [10, 1, 10]]) @
       [Cached_call (selection u (info_dicts u) '' A'') (embeddings_box u) (Some True)] @ loadA @
       column_events c cls dA (info_dicts u) (embeddings_box u) '' A'' None (Column 0) @
       [Cached_call (selection u (info_dicts u) '' B'') (embeddings_box u) (Some True)] @ loadB @
       column_events c cls dB (info_dicts u) (embeddings_box u) '' B'' None (Column 2)"
    unfolding new_events_def tr by simp
  show ?thesis
    unfolding Let_def evs
    by (simp add: True d cached_calls_list cached_calls_column
        cached_calls_load [OF lA] cached_calls_load [OF lB]
        prepares_list prepares_column prepares_load [OF lA] prepares_load [OF lB]
        npmi_flags_list npmi_flags_column npmi_flags_load [OF lA] npmi_flags_load [OF lB]
        or_default_def replicate_add [symmetric])
next
  case False
  from main_single_shape [OF False, of c cls w]
  obtain d load w1 where
    tr: "trace (snd (main c cls u w)) = trace w @
       [Get_dataset_info_dicts, Title ''Data Measurements Tool'', Sidebar_header,
        Checkbox ''Comparison mode'', Checkbox ''Show embeddings'',
        Log WARNING ''Using Single Dataset Mode'',
        Sidebar_selection (info_dicts u) []] @
       Cached_call (selection u (info_dicts u) []) (embeddings_box u) (Some True) # load @
       column_events c cls d (info_dicts u) (embeddings_box u) [] None (current w)"
    and l: "load = [] \<or>
      load = load_events c (selection u (info_dicts u) []) (embeddings_box u) (Some True) w1"
    by blast
  have d: "load_or_prepare c ds_args show_embeddings None w0 =
        load_or_prepare c ds_args show_embeddings (Some False) w0"
    by (simp add: load_or_prepare_unfold or_default_def)
  have evs: "new_events w (snd (main c cls u w)) =
       ([Get_dataset_info_dicts] @ [Title ''Data Measurements Tool''] @ [Sidebar_header] @
        [Checkbox ''Comparison mode''] @ [Checkbox ''Show embeddings''] @
        [Log WARNING ''Using Single Dataset Mode''] @
        [Sidebar_selection (info_dicts u) []]) @
       [Cached_call (selection u (info_dicts u) []) (embeddings_box u) (Some True)] @ load @
       column_events c cls d (info_dicts u) (embeddings_box u) [] None (current w)"
    unfolding new_events_def tr by simp
  show ?thesis
    unfolding Let_def evs
    by (simp add: False d cached_calls_list cached_calls_column cached_calls_load [OF l]
        prepares_list prepares_column prepares_load [OF l]
        npmi_flags_list npmi_flags_column npmi_flags_load [OF l]
        or_default_def replicate_add [symmetric])
qed






end
